theory Spec2Isabelle
  imports Main "HOL-Library.Sublist"
begin

section \<open>Text, numbers and objects of the source language\<close>

text \<open>
  A JavaScript string is modelled by a \<^typ>\<open>string\<close> holding its UTF-8 bytes, so the
  pictographs at the head of the error messages are three and six bytes long.  A number
  is an \<^typ>\<open>int\<close> (integers below \<open>10^21\<close> in magnitude, which a template literal and
  \<open>JSON.stringify\<close> print in plain decimal).  An object is the list of its own entries in
  the order \<open>Object.entries\<close> yields them.
\<close>

type_synonym 'v obj = "(string \<times> 'v) list"

datatype error = Error string | TypeError

text \<open>\<open>Array.prototype.join\<close> on an array of strings.\<close>

fun join :: "string \<Rightarrow> string list \<Rightarrow> string" where
  "join sep [] = []"
| "join sep [x] = x"
| "join sep (x # y # ys) = x @ sep @ join sep (y # ys)"

definition digit_char :: "nat \<Rightarrow> char" where
  "digit_char d =
     (if d = 0 then CHR ''0'' else if d = 1 then CHR ''1'' else if d = 2 then CHR ''2''
      else if d = 3 then CHR ''3'' else if d = 4 then CHR ''4'' else if d = 5 then CHR ''5''
      else if d = 6 then CHR ''6'' else if d = 7 then CHR ''7'' else if d = 8 then CHR ''8''
      else CHR ''9'')"

fun string_of_nat :: "nat \<Rightarrow> string" where
  "string_of_nat n =
     (if n < 10 then [digit_char n] else string_of_nat (n div 10) @ [digit_char (n mod 10)])"

declare string_of_nat.simps [simp del]

text \<open>What a template literal prints for a number.\<close>

definition string_of_number :: "int \<Rightarrow> string" where
  "string_of_number i =
     (if i < 0 then ''-'' @ string_of_nat (nat (- i)) else string_of_nat (nat i))"

text \<open>What a template literal prints for a string that may be \<open>undefined\<close>.\<close>

definition template :: "string option \<Rightarrow> string" where
  "template v = (case v of None \<Rightarrow> ''undefined'' | Some s \<Rightarrow> s)"

text \<open>Truthiness of an optional string and of an optional number.\<close>

definition truthy :: "string option \<Rightarrow> bool" where
  "truthy v = (case v of None \<Rightarrow> False | Some s \<Rightarrow> s \<noteq> [])"

definition truthy_number :: "int option \<Rightarrow> bool" where
  "truthy_number v = (case v of None \<Rightarrow> False | Some n \<Rightarrow> n \<noteq> 0)"

subsection \<open>\<open>String.prototype.trim\<close>\<close>

text \<open>
  The white space and line terminators of the language, in UTF-8: TAB, LF, VT, FF, CR,
  SPACE, U+00A0, U+1680, U+2000 to U+200A, U+2028, U+2029, U+202F, U+205F, U+3000, U+FEFF.
\<close>

definition white_space :: "string list" where
  "white_space =
     [[CHR 0x09], [CHR 0x0A], [CHR 0x0B], [CHR 0x0C], [CHR 0x0D], [CHR 0x20],
      [CHR 0xC2, CHR 0xA0], [CHR 0xE1, CHR 0x9A, CHR 0x80],
      [CHR 0xE2, CHR 0x80, CHR 0x80], [CHR 0xE2, CHR 0x80, CHR 0x81],
      [CHR 0xE2, CHR 0x80, CHR 0x82], [CHR 0xE2, CHR 0x80, CHR 0x83],
      [CHR 0xE2, CHR 0x80, CHR 0x84], [CHR 0xE2, CHR 0x80, CHR 0x85],
      [CHR 0xE2, CHR 0x80, CHR 0x86], [CHR 0xE2, CHR 0x80, CHR 0x87],
      [CHR 0xE2, CHR 0x80, CHR 0x88], [CHR 0xE2, CHR 0x80, CHR 0x89],
      [CHR 0xE2, CHR 0x80, CHR 0x8A], [CHR 0xE2, CHR 0x80, CHR 0xA8],
      [CHR 0xE2, CHR 0x80, CHR 0xA9], [CHR 0xE2, CHR 0x80, CHR 0xAF],
      [CHR 0xE2, CHR 0x81, CHR 0x9F], [CHR 0xE3, CHR 0x80, CHR 0x80],
      [CHR 0xEF, CHR 0xBB, CHR 0xBF]]"

text \<open>The number of bytes of the white space character a string starts with, or 0.\<close>

definition ws_head :: "string list \<Rightarrow> string \<Rightarrow> nat" where
  "ws_head tbl s =
     (case filter (\<lambda>w. take (length w) s = w) tbl of [] \<Rightarrow> 0 | w # _ \<Rightarrow> length w)"

function strip :: "string list \<Rightarrow> string \<Rightarrow> string" where
  "strip tbl s =
     (if ws_head tbl s = 0 \<or> s = [] then s else strip tbl (drop (ws_head tbl s) s))"
  by pat_completeness auto
termination
  by (relation "measure (\<lambda>(tbl, s). length s)") auto

declare strip.simps [simp del]

definition trimStart :: "string \<Rightarrow> string" where
  "trimStart s = strip white_space s"

definition trimEnd :: "string \<Rightarrow> string" where
  "trimEnd s = rev (strip (map rev white_space) (rev s))"

definition trim :: "string \<Rightarrow> string" where
  "trim s = trimEnd (trimStart s)"

subsection \<open>\<open>JSON.stringify\<close> on scalars\<close>

datatype jval = JNull | JBool bool | JNum int | JStr string

definition hex_digit :: "nat \<Rightarrow> char" where
  "hex_digit d =
     (if d < 10 then digit_char d else if d = 10 then CHR ''a'' else if d = 11 then CHR ''b''
      else if d = 12 then CHR ''c'' else if d = 13 then CHR ''d'' else if d = 14 then CHR ''e''
      else CHR ''f'')"

definition json_char :: "char \<Rightarrow> string" where
  "json_char c =
     (if c = CHR 0x22 then [CHR 0x5C, CHR 0x22]
      else if c = CHR 0x5C then [CHR 0x5C, CHR 0x5C]
      else if c = CHR 0x08 then [CHR 0x5C, CHR ''b'']
      else if c = CHR 0x0C then [CHR 0x5C, CHR ''f'']
      else if c = CHR 0x0A then [CHR 0x5C, CHR ''n'']
      else if c = CHR 0x0D then [CHR 0x5C, CHR ''r'']
      else if c = CHR 0x09 then [CHR 0x5C, CHR ''t'']
      else if of_char c < (32 :: nat)
        then [CHR 0x5C, CHR ''u'', CHR ''0'', CHR ''0'',
              hex_digit (of_char c div 16), hex_digit (of_char c mod 16)]
      else [c])"

definition json_string :: "string \<Rightarrow> string" where
  "json_string s = [CHR 0x22] @ concat (map json_char s) @ [CHR 0x22]"

fun JSON_stringify :: "jval \<Rightarrow> string" where
  "JSON_stringify JNull = ''null''"
| "JSON_stringify (JBool b) = (if b then ''true'' else ''false'')"
| "JSON_stringify (JNum n) = string_of_number n"
| "JSON_stringify (JStr s) = json_string s"

section \<open>Clause parsers (\<open>src/query/utils.js\<close>)\<close>

subsection \<open>\<open>parseSort\<close>\<close>

text \<open>
  \<open>SortType\<close>: a string, a record from column to direction, or a record from table to
  such a record.  An entry's value is thus a number or an object of numbers.
\<close>

datatype sort_value = Direction int | Columns "int obj"

datatype sort_spec = SortString string | SortRecord "sort_value obj"

definition asc_desc :: "int \<Rightarrow> string" where
  "asc_desc direction = (if direction = 1 then ''ASC'' else ''DESC'')"

fun sort_entry :: "string \<times> sort_value \<Rightarrow> string" where
  "sort_entry (table, Direction columns) = table @ '' '' @ asc_desc columns"
| "sort_entry (table, Columns columns) =
     join '', '' (map (\<lambda>(column, direction).
        table @ ''.'' @ column @ '' '' @ asc_desc direction) columns)"

fun parseSort :: "sort_spec option \<Rightarrow> string" where
  "parseSort None = []"
| "parseSort (Some (SortString sort')) = (if sort' = [] then [] else '' ORDER BY '' @ sort')"
| "parseSort (Some (SortRecord entries)) =
     (if entries \<noteq> []
      then '' ORDER BY '' @ join '', '' (filter (\<lambda>q. q \<noteq> []) (map sort_entry entries))
      else [])"

text \<open>Truthiness of a sort specification, for the builders' \<open>if (sort)\<close>.\<close>

definition truthy_sort :: "sort_spec option \<Rightarrow> bool" where
  "truthy_sort s =
     (case s of None \<Rightarrow> False | Some (SortString t) \<Rightarrow> t \<noteq> [] | Some (SortRecord _) \<Rightarrow> True)"

subsection \<open>\<open>parseGroupBy\<close> and \<open>parsecolumns\<close>\<close>

text \<open>
  A column or group-by specification: a string, an array of strings, or an object whose
  values are arrays of strings, the key \<open>extra\<close> holding a string or an array.
\<close>

datatype column_value = Text string | Array "string list"

datatype column_spec =
  ColumnString string | ColumnArray "string list" | ColumnRecord "column_value obj"

text \<open>What one entry of the object pushes onto \<open>clauses\<close>.\<close>

fun clauses_of :: "string \<times> column_value \<Rightarrow> string list" where
  "clauses_of (table, columns) =
     (if table = ''extra''
      then [case columns of Array cs \<Rightarrow> join '', '' cs | Text _ \<Rightarrow> table]
      else (case columns of
              Array cs \<Rightarrow> map (\<lambda>column. table @ ''.'' @ column) cs
            | Text _ \<Rightarrow> []))"

fun parseGroupBy :: "column_spec option \<Rightarrow> string" where
  "parseGroupBy None = []"
| "parseGroupBy (Some (ColumnString groupBy)) =
     (if groupBy = [] then [] else '' GROUP BY '' @ groupBy)"
| "parseGroupBy (Some (ColumnArray groupBy)) = '' GROUP BY '' @ join '', '' groupBy"
| "parseGroupBy (Some (ColumnRecord groupBy)) =
     (let clauses = concat (map clauses_of groupBy)
      in if length clauses > 0 then '' GROUP BY '' @ join '', '' clauses else [])"

fun parsecolumns :: "column_spec option \<Rightarrow> string" where
  "parsecolumns None = []"
| "parsecolumns (Some (ColumnString columns)) = columns"
| "parsecolumns (Some (ColumnArray columns)) = join '', '' columns"
| "parsecolumns (Some (ColumnRecord columns)) =
     (let clauses = concat (map clauses_of columns)
      in if length clauses > 0 then join '', '' clauses else [])"

subsection \<open>\<open>parseJoins\<close>\<close>

text \<open>A join descriptor is an object of strings (\<open>JoinsType\<close>).\<close>

type_synonym join_descriptor = "string obj"

definition cross_mark :: string where
  "cross_mark = [CHR 0xE2, CHR 0x9D, CHR 0x8C]"

definition warning_sign :: string where
  "warning_sign = [CHR 0xE2, CHR 0x9A, CHR 0xA0, CHR 0xEF, CHR 0xB8, CHR 0x8F]"

definition tableEntries :: "join_descriptor \<Rightarrow> (string \<times> string) list" where
  "tableEntries j =
     filter (\<lambda>(key, _). key \<noteq> ''type'' \<and> key \<noteq> ''on'' \<and> key \<noteq> ''operator'') j"

text \<open>\<open>join?.table || tableEntries?.[0]?.[0]\<close>, printed by a template literal.\<close>

definition table_or_first :: "join_descriptor \<Rightarrow> string" where
  "table_or_first j =
     (if truthy (map_of j ''table'') then template (map_of j ''table'')
      else template (case tableEntries j of [] \<Rightarrow> None | (key, _) # _ \<Rightarrow> Some key))"

text \<open>The callback of \<open>joins.map\<close>: one descriptor to its clause, or the error thrown.\<close>

definition join_clause :: "join_descriptor \<Rightarrow> error + string" where
  "join_clause j =
     (case map_of j ''type'' of
        Some type \<Rightarrow>
          (let on = map_of j ''on'';
               operator = (case map_of j ''operator'' of None \<Rightarrow> ''='' | Some v \<Rightarrow> v)
           in if truthy on \<and> tableEntries j \<noteq> []
              then Inr ('' '' @ type @ '' '' @ table_or_first j @ '' ON '' @ template on)
              else if length (tableEntries j) \<noteq> 2
              then Inl (Error (cross_mark
                     @ ''JOIN requires exactly two tables for a relation, but found ''
                     @ string_of_nat (length (tableEntries j)) @ '' or condition not found''))
              else (case tableEntries j of
                      [(table1, column1), (table2, column2)] \<Rightarrow>
                        Inr ('' '' @ type @ '' '' @ table2 @ '' ON '' @ table1 @ ''.'' @ column1
                             @ '' '' @ operator @ '' '' @ table2 @ ''.'' @ column2)
                    | _ \<Rightarrow> Inl TypeError))
      | None \<Rightarrow>
          (if map_of j ''on'' \<noteq> None \<and> tableEntries j \<noteq> []
           then Inr ('' JOIN '' @ table_or_first j @ '' ON '' @ template (map_of j ''on''))
           else if length (tableEntries j) \<noteq> 2
           then Inl (Error (cross_mark
                  @ '' JOIN shorthand requires exactly two tables, but found ''
                  @ string_of_nat (length (tableEntries j)) @ '' or condition not found''))
           else (case tableEntries j of
                   [(table1, column1), (table2, column2)] \<Rightarrow>
                     Inr ('' JOIN '' @ table2 @ '' ON '' @ table1 @ ''.'' @ column1
                          @ '' = '' @ table2 @ ''.'' @ column2)
                 | _ \<Rightarrow> Inl TypeError)))"

text \<open>\<open>Array.prototype.map\<close> with a callback that may throw: the first throw ends it.\<close>

fun map_throwing :: "('a \<Rightarrow> error + 'b) \<Rightarrow> 'a list \<Rightarrow> error + 'b list" where
  "map_throwing f [] = Inr []"
| "map_throwing f (x # xs) =
     (case f x of
        Inl e \<Rightarrow> Inl e
      | Inr y \<Rightarrow> (case map_throwing f xs of Inl e \<Rightarrow> Inl e | Inr ys \<Rightarrow> Inr (y # ys)))"

definition parseJoins :: "join_descriptor list option \<Rightarrow> error + string" where
  "parseJoins joins =
     (case joins of
        None \<Rightarrow> Inr []
      | Some js \<Rightarrow>
          if js = [] then Inr []
          else (case map_throwing join_clause js of
                  Inl e \<Rightarrow> Inl e
                | Inr joinClauses \<Rightarrow> Inr (join '' '' joinClauses)))"

section \<open>Statement builders\<close>

text \<open>\<open>limit?: string | number\<close> of the UPDATE and DELETE builders.\<close>

datatype limit_value = LimitNumber int | LimitString string

definition truthy_limit :: "limit_value option \<Rightarrow> bool" where
  "truthy_limit l =
     (case l of None \<Rightarrow> False | Some (LimitNumber n) \<Rightarrow> n \<noteq> 0
      | Some (LimitString s) \<Rightarrow> s \<noteq> [])"

definition limit_text :: "limit_value option \<Rightarrow> string" where
  "limit_text l =
     (case l of None \<Rightarrow> ''undefined'' | Some (LimitNumber n) \<Rightarrow> string_of_number n
      | Some (LimitString s) \<Rightarrow> s)"

text \<open>\<open>if (limit) query += ` LIMIT ${limit}`\<close>: what the test appends.\<close>

definition limit_clause :: "limit_value option \<Rightarrow> string" where
  "limit_clause l = (if truthy_limit l then '' LIMIT '' @ limit_text l else [])"

subsection \<open>\<open>selectQuery\<close> (\<open>src/query/selectQuery.js\<close>)\<close>

record sub_query =
  sq_query :: string
  sq_as :: "string option"

record aggregate =
  agg_alias :: "string option"
  agg_functions :: "string obj"

record recursive_cte =
  baseCase :: string
  recursiveCase :: string
  cte_alias :: string

record limit_skip =
  ls_limit :: "int option"
  ls_skip :: "int option"

record select_config =
  sel_distinct :: bool
  sel_table :: "string option"
  sel_sort :: "sort_spec option"
  sel_limitSkip :: "limit_skip option"
  sel_columns :: "column_spec option"
  sel_groupBy :: "column_spec option"
  sel_aggregates :: "aggregate list option"
  sel_where :: "string option"
  sel_having :: "string option"
  sel_subQueries :: "sub_query list option"
  sel_joins :: "join_descriptor list option"
  sel_recursiveCTE :: "recursive_cte option"

text \<open>The configuration \<open>{}\<close>: every option absent.\<close>

definition empty_select :: select_config where
  "empty_select =
     \<lparr>sel_distinct = False, sel_table = None, sel_sort = None, sel_limitSkip = None,
      sel_columns = None, sel_groupBy = None, sel_aggregates = None, sel_where = None,
      sel_having = None, sel_subQueries = None, sel_joins = None, sel_recursiveCTE = None\<rparr>"

text \<open>
  \<open>aggregates_alias\<close> is a plain object, so \<open>aggregates_alias[func]\<close> also finds the
  members it inherits from \<open>Object.prototype\<close>.  They are truthy, and the template literal
  prints a built-in function as V8 does and the prototype object as \<open>[object Object]\<close>.
\<close>

definition native_function :: "string \<Rightarrow> string" where
  "native_function name = ''function '' @ name @ ''() { [native code] }''"

definition inherited_members :: "(string \<times> string) list" where
  "inherited_members =
     (''constructor'', native_function ''Object'')
     # (''__proto__'', ''[object Object]'')
     # map (\<lambda>name. (name, native_function name))
         [''__defineGetter__'', ''__defineSetter__'', ''hasOwnProperty'',
          ''__lookupGetter__'', ''__lookupSetter__'', ''isPrototypeOf'',
          ''propertyIsEnumerable'', ''toString'', ''valueOf'', ''toLocaleString'']"

text \<open>What \<open>`${aggregates_alias[func]}`\<close> prints, when the member exists.\<close>

definition aggregates_alias :: "string \<Rightarrow> string option" where
  "aggregates_alias =
     map_of ([(''MIN'', ''minimum''), (''MAX'', ''maximum''), (''SUM'', ''summation''),
              (''COUNT'', ''count''), (''AVG'', ''average'')] @ inherited_members)"

text \<open>Truthiness of a column specification: only the empty string and absence are falsy.\<close>

definition truthy_columns :: "column_spec option \<Rightarrow> bool" where
  "truthy_columns c =
     (case c of None \<Rightarrow> False | Some (ColumnString s) \<Rightarrow> s \<noteq> [] | Some _ \<Rightarrow> True)"

definition sub_query_text :: "sub_query \<Rightarrow> string" where
  "sub_query_text subQuery =
     ''('' @ sq_query subQuery @ '')''
     @ (if truthy (sq_as subQuery) then '' AS '' @ template (sq_as subQuery) else [])"

definition aggregate_text :: "aggregate \<Rightarrow> string" where
  "aggregate_text agg =
     (if truthy (agg_alias agg)
      then join '', '' (map (\<lambda>(func, column). func @ ''('' @ column @ '')'') (agg_functions agg))
           @ '' AS '' @ template (agg_alias agg)
      else join '', '' (map (\<lambda>(func, column).
             func @ ''('' @ column @ '') AS ''
             @ (case aggregates_alias func of Some a \<Rightarrow> a | None \<Rightarrow> func))
             (agg_functions agg)))"

text \<open>The variable \<open>select\<close> after the columns and the subqueries have been added.\<close>

definition select_columns_subqueries :: "select_config \<Rightarrow> string" where
  "select_columns_subqueries config =
     (let select = (if truthy_columns (sel_columns config)
                    then parsecolumns (sel_columns config) else [])
      in case sel_subQueries config of
           None \<Rightarrow> select
         | Some subQueries \<Rightarrow>
             select @ (if select \<noteq> [] then '', '' else []) @ '' ''
             @ join '', '' (map sub_query_text subQueries))"

text \<open>
  The variable \<open>select\<close> where the FROM clause reads it: the aggregates are appended when
  \<open>aggregates\<close> is given, and the \<open>else\<close> of that test assigns the star.
\<close>

definition select_list :: "select_config \<Rightarrow> string" where
  "select_list config =
     (let select = select_columns_subqueries config
      in case sel_aggregates config of
           Some aggregates \<Rightarrow>
             select @ (if select \<noteq> [] then '', '' else [])
             @ join '', '' (map aggregate_text aggregates)
         | None \<Rightarrow> ''*'')"

definition recursiveCTEQuery :: "recursive_cte option \<Rightarrow> string" where
  "recursiveCTEQuery r =
     (case r of
        None \<Rightarrow> []
      | Some c \<Rightarrow>
          ''WITH RECURSIVE '' @ cte_alias c @ '' AS ('' @ [CHR 0x0A]
          @ ''            '' @ baseCase c @ [CHR 0x0A]
          @ ''            UNION ALL'' @ [CHR 0x0A]
          @ ''            '' @ recursiveCase c @ [CHR 0x0A]
          @ ''        ) '')"

definition main_table :: "select_config \<Rightarrow> string" where
  "main_table config =
     (case sel_recursiveCTE config of
        None \<Rightarrow> template (sel_table config)
      | Some c \<Rightarrow> cte_alias c)"

text \<open>\<open>if (joins) query += parseJoins(joins)\<close>: the fragment appended, or the error thrown.\<close>

definition joins_if_given :: "join_descriptor list option \<Rightarrow> error + string" where
  "joins_if_given joins = (case joins of None \<Rightarrow> Inr [] | Some js \<Rightarrow> parseJoins (Some js))"

text \<open>Everything the builder appends after the joins, the same in both builds.\<close>

definition select_tail :: "select_config \<Rightarrow> string" where
  "select_tail config =
     (if truthy (sel_where config) then '' WHERE '' @ template (sel_where config) else [])
     @ (if truthy_columns (sel_groupBy config) then parseGroupBy (sel_groupBy config) else [])
     @ (if truthy (sel_having config) then '' HAVING '' @ template (sel_having config) else [])
     @ (if truthy_sort (sel_sort config) then parseSort (sel_sort config) else [])
     @ (case sel_limitSkip config of
          None \<Rightarrow> []
        | Some limitSkip \<Rightarrow>
            (if truthy_number (ls_limit limitSkip)
             then '' LIMIT '' @ string_of_number (the (ls_limit limitSkip)) else [])
            @ (if truthy_number (ls_skip limitSkip)
               then '' OFFSET '' @ string_of_number (the (ls_skip limitSkip)) else []))"

definition selectQuery :: "select_config \<Rightarrow> error + string" where
  "selectQuery config =
     (let query = recursiveCTEQuery (sel_recursiveCTE config) @ ''SELECT ''
                  @ (if sel_distinct config then ''DISTINCT '' else [])
                  @ select_list config @ '' FROM '' @ main_table config
      in case joins_if_given (sel_joins config) of
           Inl e \<Rightarrow> Inl e
         | Inr joinClauses \<Rightarrow> Inr (trim (query @ joinClauses @ select_tail config)))"

subsection \<open>The minified build of \<open>selectQuery\<close> (\<open>src/unnamed/part_001\<close>)\<close>

text \<open>
  The build calls \<open>utils_1.parseColumns\<close>.  What the module \<open>./utils\<close> exports under
  that name is a parameter of the model: \<open>None\<close> when it exports no such member, as
  \<open>src/query/utils.js\<close> does (it exports \<open>parsecolumns\<close>); the call then throws a
  TypeError, and it is made only for truthy columns.
  The build appends the aggregates only when they are given and reads the select-list
  as \<open>I || "*"\<close>.
\<close>

definition select_list_min ::
    "(column_spec option \<Rightarrow> string) option \<Rightarrow> select_config \<Rightarrow> error + string" where
  "select_list_min parseColumns config =
     (case (if truthy_columns (sel_columns config)
            then (case parseColumns of
                    None \<Rightarrow> Inl TypeError
                  | Some parse \<Rightarrow> Inr (parse (sel_columns config)))
            else Inr []) of
        Inl e \<Rightarrow> Inl e
      | Inr I0 \<Rightarrow>
          Inr (let I = (case sel_subQueries config of
                          None \<Rightarrow> I0
                        | Some a \<Rightarrow> I0 @ (if I0 \<noteq> [] then '', '' else []) @ '' ''
                                    @ join '', '' (map sub_query_text a));
                   I = (case sel_aggregates config of
                          None \<Rightarrow> I
                        | Some l \<Rightarrow> I @ (if I \<noteq> [] then '', '' else [])
                                    @ join '', '' (map aggregate_text l))
               in if I \<noteq> [] then I else ''*''))"

definition selectQuery_min ::
    "(column_spec option \<Rightarrow> string) option \<Rightarrow> select_config \<Rightarrow> error + string" where
  "selectQuery_min parseColumns config =
     (case select_list_min parseColumns config of
        Inl e \<Rightarrow> Inl e
      | Inr I \<Rightarrow>
          (let S = recursiveCTEQuery (sel_recursiveCTE config) @ ''SELECT ''
                   @ (if sel_distinct config then ''DISTINCT '' else [])
                   @ I @ '' FROM '' @ main_table config
           in case joins_if_given (sel_joins config) of
                Inl e \<Rightarrow> Inl e
              | Inr joinClauses \<Rightarrow> Inr (trim (S @ joinClauses @ select_tail config))))"

subsection \<open>\<open>insertQuery\<close> (\<open>src/query/insertQuery.js\<close>)\<close>

datatype insert_data = Row "jval obj" | Rows "jval obj list"

record insert_params =
  ins_table :: "string option"
  ins_insertData :: "insert_data option"
  ins_dateFields :: "string list option"
  ins_uniqueColumn :: "string option"
  ins_onDuplicateUpdateFields :: "string list"

text \<open>\<open>date\<close>: undefined, or one \<open>CURRENT_TIMESTAMP\<close> for each date field.\<close>

definition date_of :: "string list option \<Rightarrow> string list option" where
  "date_of dateFields =
     (case dateFields of
        None \<Rightarrow> None
      | Some fs \<Rightarrow> if fs = [] then None else Some (replicate (length fs) ''CURRENT_TIMESTAMP''))"

text \<open>\<open>JSON.stringify(Object.values(row)).slice(1, -1)\<close>.\<close>

definition JSON_stringify_array :: "jval list \<Rightarrow> string" where
  "JSON_stringify_array vs = ''['' @ join '','' (map JSON_stringify vs) @ '']''"

definition slice_1_minus_1 :: "string \<Rightarrow> string" where
  "slice_1_minus_1 s = butlast (tl s)"

definition row_values :: "jval obj \<Rightarrow> string" where
  "row_values row = slice_1_minus_1 (JSON_stringify_array (map snd row))"

definition insert_columns :: "jval obj \<Rightarrow> string list option \<Rightarrow> string" where
  "insert_columns row dateFields =
     ''('' @ join '', '' (map fst row)
     @ (case date_of dateFields of
          None \<Rightarrow> []
        | Some _ \<Rightarrow> '','' @ join '', '' (the dateFields))
     @ '')''"

definition insert_values :: "insert_data \<Rightarrow> string list option \<Rightarrow> string" where
  "insert_values insertData dateFields =
     (case insertData of
        Rows rows \<Rightarrow>
          join '', '' (map (\<lambda>row. ''('' @ row_values row
            @ (case date_of dateFields of None \<Rightarrow> [] | Some date \<Rightarrow> '', '' @ join '', '' date)
            @ '')'') rows)
      | Row row \<Rightarrow>
          ''('' @ row_values row
          @ (case date_of dateFields of None \<Rightarrow> [] | Some date \<Rightarrow> '','' @ join '', '' date)
          @ '')'')"

definition insert_statement :: "insert_params \<Rightarrow> string \<Rightarrow> string \<Rightarrow> string" where
  "insert_statement p columns vals =
     (if truthy (ins_uniqueColumn p)
      then ''INSERT IGNORE INTO '' @ template (ins_table p) @ '' '' @ columns
           @ '' VALUES '' @ vals
      else if length (ins_onDuplicateUpdateFields p) > 0
      then ''INSERT INTO '' @ template (ins_table p) @ '' '' @ columns @ '' VALUES '' @ vals
           @ '' ON DUPLICATE KEY UPDATE ''
           @ join '', '' (map (\<lambda>field. field @ '' = VALUES('' @ field @ '')'')
                (ins_onDuplicateUpdateFields p))
      else ''INSERT INTO '' @ template (ins_table p) @ '' '' @ columns @ '' VALUES '' @ vals)"

definition insertQuery :: "insert_params \<Rightarrow> error + string" where
  "insertQuery p =
     (case ins_insertData p of
        None \<Rightarrow> Inl (Error (cross_mark @ '' Insert data array is empty''))
      | Some (Rows []) \<Rightarrow> Inl TypeError
      | Some (Rows (first # rest)) \<Rightarrow>
          Inr (insert_statement p (insert_columns first (ins_dateFields p))
                 (insert_values (Rows (first # rest)) (ins_dateFields p)))
      | Some (Row row) \<Rightarrow>
          Inr (insert_statement p (insert_columns row (ins_dateFields p))
                 (insert_values (Row row) (ins_dateFields p))))"

subsection \<open>\<open>updateSQL\<close> (\<open>src/query/utils.js\<close>, third part)\<close>

record case_condition =
  cc_when :: string
  cc_then :: jval

datatype update_value =
  UNumber int | UBoolean bool | UString string | UNull
| UCase "case_condition list" jval

record update_params =
  upd_table :: "string option"
  upd_joins :: "join_descriptor list"
  upd_updateData :: "update_value obj"
  upd_where :: "string option"
  upd_nullValues :: "string list"
  upd_defaultValues :: "string list"
  upd_limit :: "limit_value option"
  upd_sort :: "sort_spec option"
  upd_fromSubQuery :: "string obj"
  upd_setCalculations :: "string obj"

text \<open>The parameter \<open>{}\<close> after the defaults of the destructuring have been applied.\<close>

definition empty_update :: update_params where
  "empty_update =
     \<lparr>upd_table = None, upd_joins = [], upd_updateData = [], upd_where = None,
      upd_nullValues = [], upd_defaultValues = [], upd_limit = None, upd_sort = None,
      upd_fromSubQuery = [], upd_setCalculations = []\<rparr>"

definition caseStatement :: "case_condition list \<Rightarrow> string" where
  "caseStatement cs =
     join '' '' (map (\<lambda>caseCondition.
       ''WHEN '' @ cc_when caseCondition @ '' THEN '' @ JSON_stringify (cc_then caseCondition)) cs)"

fun update_entry :: "string \<times> update_value \<Rightarrow> string" where
  "update_entry (column, UCase cs dflt) =
     column @ '' = CASE '' @ caseStatement cs @ '' ELSE '' @ JSON_stringify dflt @ '' END''"
| "update_entry (column, UNumber n) = column @ '' = '' @ string_of_number n"
| "update_entry (column, UBoolean b) = column @ '' = '' @ (if b then ''true'' else ''false'')"
| "update_entry (column, UString s) = column @ '' = '' @ json_string (trim s)"
| "update_entry (column, UNull) = column @ '' = undefined''"

text \<open>\<open>updateInfo += updateInfo ? `, ${updates}` : updates\<close>.\<close>

definition append_group :: "string \<Rightarrow> string \<Rightarrow> string" where
  "append_group info updates =
     info @ (if info \<noteq> [] then '', '' @ updates else updates)"

definition updateInfo :: "update_params \<Rightarrow> string" where
  "updateInfo p =
     (let info = join '','' (map update_entry (upd_updateData p));
          info = (if upd_setCalculations p \<noteq> []
                  then append_group info (join '', '' (map (\<lambda>(column, calculation).
                         column @ '' = '' @ calculation) (upd_setCalculations p)))
                  else info);
          info = (if upd_fromSubQuery p \<noteq> []
                  then append_group info (join '', '' (map (\<lambda>(column, calculation).
                         column @ '' = '' @ calculation) (upd_fromSubQuery p)))
                  else info);
          info = (if upd_nullValues p \<noteq> []
                  then append_group info (join '', '' (map (\<lambda>column. column @ '' = NULL'')
                         (upd_nullValues p)))
                  else info);
          info = (if upd_defaultValues p \<noteq> []
                  then append_group info (join '', '' (map (\<lambda>column. column @ '' = DEFAULT'')
                         (upd_defaultValues p)))
                  else info)
      in info)"

definition updateSQL :: "update_params \<Rightarrow> error + string" where
  "updateSQL p =
     (if \<not> truthy (upd_table p)
      then Inl (Error (warning_sign @ '' The `table` parameter is required.''))
      else if \<not> truthy (upd_where p)
      then Inl (Error (warning_sign @ '' The `where` parameter is required.''))
      else (case parseJoins (Some (upd_joins p)) of
              Inl e \<Rightarrow> Inl e
            | Inr joinStatements \<Rightarrow>
                Inr (''UPDATE'' @ joinStatements @ '' '' @ template (upd_table p)
                     @ '' SET '' @ updateInfo p
                     @ (if truthy (upd_where p)
                        then '' WHERE '' @ template (upd_where p) else [])
                     @ (if truthy_sort (upd_sort p) then parseSort (upd_sort p) else [])
                     @ limit_clause (upd_limit p))))"

subsection \<open>\<open>deleteSQL\<close> (\<open>src/query/deleteSQL.js\<close>)\<close>

record delete_params =
  del_table :: "string option"
  del_where :: "string option"
  del_joins :: "join_descriptor list option"
  del_limit :: "limit_value option"
  del_sort :: "sort_spec option"

definition deleteSQL :: "delete_params \<Rightarrow> error + string" where
  "deleteSQL p =
     (if \<not> truthy (del_table p)
      then Inl (Error (warning_sign @ '' The `table` parameter is required.''))
      else if \<not> truthy (del_where p)
      then Inl (Error (warning_sign @ '' The `where` parameter is required.''))
      else (case joins_if_given (del_joins p) of
              Inl e \<Rightarrow> Inl e
            | Inr joinClauses \<Rightarrow>
                Inr (''DELETE '' @ template (del_table p) @ '' FROM '' @ template (del_table p)
                     @ joinClauses
                     @ (if truthy (del_where p)
                        then '' WHERE '' @ template (del_where p) else [])
                     @ (if truthy_sort (del_sort p) then parseSort (del_sort p) else [])
                     @ limit_clause (del_limit p))))"

section \<open>Notions used to state the properties\<close>

text \<open>
  The leaf entries of a sort record, in order: a flat entry is one leaf under its own
  key, a nested entry gives one leaf \<open>table.column\<close> for each of its columns.
\<close>

definition leaf_entries :: "sort_value obj \<Rightarrow> (string \<times> int) list" where
  "leaf_entries entries =
     concat (map (\<lambda>(key, v). case v of
        Direction d \<Rightarrow> [(key, d)]
      | Columns cs \<Rightarrow> map (\<lambda>(column, d). (key @ ''.'' @ column, d)) cs) entries)"

text \<open>A leaf followed by its one direction token: \<open>ASC\<close> for 1, \<open>DESC\<close> otherwise.\<close>

definition leaf_text :: "string \<times> int \<Rightarrow> string" where
  "leaf_text l = fst l @ '' '' @ (if snd l = 1 then ''ASC'' else ''DESC'')"

section \<open>Properties of \<open>join\<close>\<close>

lemma join_Cons: "join sep (x # xs) = (if xs = [] then x else x @ sep @ join sep xs)"
  by (cases xs) simp_all

lemma join_append:
  "join sep (xs @ ys) =
     (if xs = [] then join sep ys else if ys = [] then join sep xs
      else join sep xs @ sep @ join sep ys)"
  by (induction xs) (auto simp: join_Cons)

lemma join_eq_Nil: "\<forall>x \<in> set xs. x \<noteq> [] \<Longrightarrow> join sep xs = [] \<longleftrightarrow> xs = []"
  by (cases xs) (auto simp: join_Cons)

lemma sublist_join: "x \<in> set xs \<Longrightarrow> sublist x (join sep xs)"
proof (induction xs)
  case Nil
  then show ?case by simp
next
  case (Cons y ys)
  show ?case
  proof (cases "x = y")
    case True
    then show ?thesis by (simp add: join_Cons)
  next
    case False
    with Cons have "sublist x (join sep ys)" and "ys \<noteq> []" by auto
    then show ?thesis
      by (metis join_Cons sublist_append)
  qed
qed

section \<open>The sort clause\<close>

lemma leaf_text_not_Nil: "leaf_text l \<noteq> []"
  by (simp add: leaf_text_def)

lemma sort_entry_leaves: "sort_entry e = join '', '' (map leaf_text (leaf_entries [e]))"
proof (cases e)
  case (Pair key v)
  then show ?thesis
    by (cases v) (simp_all add: leaf_entries_def leaf_text_def asc_desc_def split_def comp_def)
qed

lemma leaf_entries_Cons: "leaf_entries (e # es) = leaf_entries [e] @ leaf_entries es"
  by (simp add: leaf_entries_def)

text \<open>
  Dropping the empty renderings and joining the rest is joining the leaves: a nested
  entry renders to the empty string only when it has no column.
\<close>

lemma sort_entries_leaves:
  "join '', '' (filter (\<lambda>q. q \<noteq> []) (map sort_entry es)) =
   join '', '' (map leaf_text (leaf_entries es))"
proof (induction es)
  case Nil
  then show ?case by (simp add: leaf_entries_def)
next
  case (Cons e es)
  let ?ls = "map leaf_text (leaf_entries [e])"
  let ?rest = "filter (\<lambda>q. q \<noteq> []) (map sort_entry es)"
  have nonempty: "\<forall>x \<in> set ?ls. x \<noteq> []"
    "\<forall>x \<in> set (map leaf_text (leaf_entries es)). x \<noteq> []"
    by (auto simp: leaf_text_not_Nil)
  have rest_Nil: "?rest = [] \<longleftrightarrow> leaf_entries es = []"
    using Cons.IH join_eq_Nil[OF nonempty(2), of "'', ''"] join_eq_Nil[of ?rest "'', ''"]
    by auto
  have e_Nil: "sort_entry e = [] \<longleftrightarrow> leaf_entries [e] = []"
    using join_eq_Nil[OF nonempty(1), of "'', ''"] by (simp add: sort_entry_leaves)
  show ?case
    using Cons.IH rest_Nil e_Nil
    by (simp add: leaf_entries_Cons[of e es] join_append join_Cons sort_entry_leaves[symmetric])
qed

text \<open>
  C7. For a sort record (flat entries, nested entries, or both; every leaf value a
  number), \<open>parseSort\<close> returns \<open>ORDER BY\<close> followed by the leaves joined with a comma
  and a space, each leaf being its name, a space and exactly one direction token; the
  token is \<open>ASC\<close> if and only if the leaf's value is 1, and \<open>DESC\<close> for every other
  number.
\<close>

theorem parseSort_one_token_per_leaf:
  "parseSort (Some (SortRecord entries)) =
     (if entries = [] then []
      else '' ORDER BY '' @ join '', '' (map leaf_text (leaf_entries entries)))"
  by (simp add: sort_entries_leaves)

section \<open>Small facts about the clause helpers\<close>

lemma parseSort_if_truthy: "(if truthy_sort s then parseSort s else []) = parseSort s"
  by (cases s rule: parseSort.cases) (simp_all add: truthy_sort_def)

lemma joins_if_given_eq: "joins_if_given joins = parseJoins joins"
  by (simp add: joins_if_given_def parseJoins_def split: option.splits)

lemma map_throwing_error:
  "x \<in> set xs \<Longrightarrow> f x = Inl e \<Longrightarrow> \<exists>e'. map_throwing f xs = Inl e'"
  by (induction xs) (auto split: sum.splits)

text \<open>One malformed descriptor makes the whole of \<open>parseJoins\<close> throw.\<close>

lemma parseJoins_error:
  "j \<in> set js \<Longrightarrow> join_clause j = Inl e \<Longrightarrow> \<exists>e'. parseJoins (Some js) = Inl e'"
  using map_throwing_error[of j js join_clause e]
  by (auto simp: parseJoins_def)

section \<open>The select-list\<close>

text \<open>Without aggregates the source build returns the star, whatever the columns are.\<close>

lemma select_list_no_aggregates: "sel_aggregates config = None \<Longrightarrow> select_list config = ''*''"
  by (simp add: select_list_def)

text \<open>With aggregates, the select-list is the three parts in order.\<close>

lemma select_list_aggregates:
  "sel_aggregates config = Some aggregates \<Longrightarrow>
   select_list config =
     select_columns_subqueries config
     @ (if select_columns_subqueries config \<noteq> [] then '', '' else [])
     @ join '', '' (map aggregate_text aggregates)"
  by (simp add: select_list_def)

text \<open>
  C1. The claim fails on \<open>selectQuery\<close> of \<open>selectQuery.js\<close>: the columns \<open>['id', 'name']\<close>
  given without aggregates are replaced by the star, and with an empty array of
  aggregates and nothing else the select-list stays empty instead of becoming the star.
\<close>

theorem selectQuery_drops_columns_without_aggregates:
  "select_list (empty_select\<lparr>sel_table := Some ''users'',
        sel_columns := Some (ColumnArray [''id'', ''name''])\<rparr>) = ''*''
   \<and> selectQuery (empty_select\<lparr>sel_table := Some ''users'',
        sel_columns := Some (ColumnArray [''id'', ''name''])\<rparr>) = Inr ''SELECT * FROM users''
   \<and> selectQuery (empty_select\<lparr>sel_table := Some ''users'', sel_aggregates := Some []\<rparr>)
       = Inr ''SELECT  FROM users''"
  by code_simp

section \<open>The reserved key \<open>extra\<close>\<close>

lemma clauses_of_extra_array: "clauses_of (''extra'', Array cs) = [join '', '' cs]"
  by simp

lemma clauses_of_extra_text: "clauses_of (''extra'', Text t) = [''extra'']"
  by simp

text \<open>
  C2. The claim fails on \<open>parsecolumns\<close> and \<open>parseGroupBy\<close>: a string-valued \<open>extra\<close>
  contributes the key \<open>extra\<close> itself, not its text.
\<close>

theorem extra_string_renders_as_key:
  "parsecolumns (Some (ColumnRecord [(''extra'', Text ''COUNT(*) AS total'')])) = ''extra''
   \<and> parseGroupBy (Some (ColumnRecord [(''extra'', Text ''YEAR(created_at)'')]))
       = '' GROUP BY extra''"
  by simp

section \<open>Join descriptors\<close>

lemma join_clause_typed_two_pairs:
  assumes "map_of j ''type'' = Some type" and "\<not> truthy (map_of j ''on'')"
    and "tableEntries j = [(table1, column1), (table2, column2)]"
  shows "join_clause j =
     Inr ('' '' @ type @ '' '' @ table2 @ '' ON '' @ table1 @ ''.'' @ column1 @ '' ''
          @ (case map_of j ''operator'' of None \<Rightarrow> ''='' | Some v \<Rightarrow> v)
          @ '' '' @ table2 @ ''.'' @ column2)"
  using assms by (simp add: join_clause_def)

lemma join_clause_shorthand_two_pairs:
  assumes "map_of j ''type'' = None" and "map_of j ''on'' = None"
    and "tableEntries j = [(table1, column1), (table2, column2)]"
  shows "join_clause j =
     Inr ('' JOIN '' @ table2 @ '' ON '' @ table1 @ ''.'' @ column1 @ '' = ''
          @ table2 @ ''.'' @ column2)"
  using assms by (simp add: join_clause_def)

text \<open>
  C3. The claim fails on the shorthand form of \<open>parseJoins\<close>: the operator \<open>>\<close> given
  without a type is ignored, while the same descriptor with a type honours it.
\<close>

theorem shorthand_join_ignores_operator:
  "parseJoins (Some [[(''operator'', ''>''), (''orders'', ''total''), (''limits'', ''cap'')]])
     = Inr '' JOIN limits ON orders.total = limits.cap''
   \<and> parseJoins (Some [[(''type'', ''JOIN''), (''operator'', ''>''),
                         (''orders'', ''total''), (''limits'', ''cap'')]])
     = Inr '' JOIN limits ON orders.total > limits.cap''"
  by code_simp

lemma join_clause_typed_malformed:
  assumes "map_of j ''type'' = Some type"
    and "\<not> (truthy (map_of j ''on'') \<and> tableEntries j \<noteq> [])"
    and "length (tableEntries j) \<noteq> 2"
  shows "join_clause j =
     Inl (Error (cross_mark @ ''JOIN requires exactly two tables for a relation, but found ''
       @ string_of_nat (length (tableEntries j)) @ '' or condition not found''))"
  using assms by (auto simp: join_clause_def)

lemma join_clause_shorthand_malformed:
  assumes "map_of j ''type'' = None"
    and "\<not> (map_of j ''on'' \<noteq> None \<and> tableEntries j \<noteq> [])"
    and "length (tableEntries j) \<noteq> 2"
  shows "join_clause j =
     Inl (Error (cross_mark @ '' JOIN shorthand requires exactly two tables, but found ''
       @ string_of_nat (length (tableEntries j)) @ '' or condition not found''))"
  using assms by (auto simp: join_clause_def)

text \<open>
  C5. The claim fails on the shorthand form of \<open>parseJoins\<close>: an \<open>on\<close> that is present
  but empty, next to one table-column pair, is neither a truthy condition nor two pairs,
  yet the fragment \<open>JOIN users ON\<close> is returned; the same descriptor with a type throws
  with the count 1.
\<close>

theorem shorthand_join_accepts_empty_on:
  "parseJoins (Some [[(''on'', ''''), (''users'', ''id'')]]) = Inr '' JOIN users ON ''
   \<and> parseJoins (Some [[(''type'', ''JOIN''), (''on'', ''''), (''users'', ''id'')]])
     = Inl (Error (cross_mark
         @ ''JOIN requires exactly two tables for a relation, but found 1 or condition not found''))"
  by code_simp

section \<open>Required fields\<close>

lemma updateSQL_requires_table_and_where:
  "\<not> truthy (upd_table p) \<or> \<not> truthy (upd_where p) \<Longrightarrow> \<exists>msg. updateSQL p = Inl (Error msg)"
  by (auto simp: updateSQL_def)

lemma deleteSQL_requires_table_and_where:
  "\<not> truthy (del_table p) \<or> \<not> truthy (del_where p) \<Longrightarrow> \<exists>msg. deleteSQL p = Inl (Error msg)"
  by (auto simp: deleteSQL_def)

lemma insertQuery_requires_insertData:
  "ins_insertData p = None \<Longrightarrow> \<exists>msg. insertQuery p = Inl (Error msg)"
  by (simp add: insertQuery_def)

lemma insertQuery_empty_array: "ins_insertData p = Some (Rows []) \<Longrightarrow> insertQuery p = Inl TypeError"
  by (simp add: insertQuery_def)

text \<open>
  C4. The claim fails on \<open>insertQuery\<close>: the empty object as \<open>insertData\<close> raises nothing
  and a statement without columns and values is returned.
\<close>

theorem insertQuery_accepts_empty_row:
  "insertQuery \<lparr>ins_table = Some ''t'', ins_insertData = Some (Row []), ins_dateFields = None,
      ins_uniqueColumn = None, ins_onDuplicateUpdateFields = []\<rparr>
   = Inr ''INSERT INTO t () VALUES ()''"
  by code_simp

section \<open>The three forms of INSERT\<close>

text \<open>
  C6. When \<open>insertData\<close> is a row or a non-empty array of rows, \<open>insertQuery\<close> returns
  exactly one of three statements: \<open>INSERT IGNORE INTO\<close> when \<open>uniqueColumn\<close> is set (a
  non-empty string), whatever \<open>onDuplicateUpdateFields\<close> holds; otherwise the
  \<open>ON DUPLICATE KEY UPDATE\<close> statement when \<open>onDuplicateUpdateFields\<close> is non-empty;
  otherwise the plain \<open>INSERT INTO\<close>.  The columns come from the first row.
\<close>

theorem insertQuery_statement_forms:
  assumes "ins_insertData p = Some d" and "d \<noteq> Rows []"
  shows "insertQuery p =
     Inr (let columns = insert_columns (case d of Row r \<Rightarrow> r | Rows rs \<Rightarrow> hd rs)
                          (ins_dateFields p);
              rows = insert_values d (ins_dateFields p)
          in if truthy (ins_uniqueColumn p)
             then ''INSERT IGNORE INTO '' @ template (ins_table p) @ '' '' @ columns
                  @ '' VALUES '' @ rows
             else if ins_onDuplicateUpdateFields p \<noteq> []
             then ''INSERT INTO '' @ template (ins_table p) @ '' '' @ columns
                  @ '' VALUES '' @ rows @ '' ON DUPLICATE KEY UPDATE ''
                  @ join '', '' (map (\<lambda>field. field @ '' = VALUES('' @ field @ '')'')
                      (ins_onDuplicateUpdateFields p))
             else ''INSERT INTO '' @ template (ins_table p) @ '' '' @ columns
                  @ '' VALUES '' @ rows)"
proof (cases d)
  case (Row r)
  with assms show ?thesis by (simp add: insertQuery_def insert_statement_def)
next
  case (Rows rs)
  with assms obtain first rest where "rs = first # rest" by (cases rs) auto
  with Rows assms show ?thesis by (simp add: insertQuery_def insert_statement_def)
qed

text \<open>
  The example of the specification: two rows and a unique column give exactly
  \<open>INSERT IGNORE INTO t (a) VALUES (1), (2)\<close>.
\<close>

theorem insertQuery_ignore_example:
  "insertQuery \<lparr>ins_table = Some ''t'',
      ins_insertData = Some (Rows [[(''a'', JNum 1)], [(''a'', JNum 2)]]),
      ins_dateFields = None, ins_uniqueColumn = Some ''a'',
      ins_onDuplicateUpdateFields = []\<rparr>
   = Inr ''INSERT IGNORE INTO t (a) VALUES (1), (2)''"
proof -
  let ?d = "Rows [[(''a'', JNum 1)], [(''a'', JNum 2)]]"
  let ?p = "\<lparr>ins_table = Some ''t'', ins_insertData = Some ?d, ins_dateFields = None,
      ins_uniqueColumn = Some ''a'', ins_onDuplicateUpdateFields = []\<rparr>"
  have d: "ins_insertData ?p = Some ?d" by simp
  have ne: "?d \<noteq> Rows []" by simp
  have cols: "insert_columns [(''a'', JNum 1)] None = ''(a)''" by code_simp
  have rows: "insert_values ?d None = ''(1), (2)''" by code_simp
  show ?thesis
    using insertQuery_statement_forms[OF d ne]
    by (simp add: cols rows truthy_def template_def)
qed

section \<open>CASE assignments of UPDATE\<close>

lemma updateInfo_starts:
  "\<exists>rest. updateInfo p = join '','' (map update_entry (upd_updateData p)) @ rest"
  by (simp add: updateInfo_def Let_def append_group_def)

lemma sublist_updateInfo:
  assumes "e \<in> set (upd_updateData p)"
  shows "sublist (update_entry e) (updateInfo p)"
proof -
  from assms have "sublist (update_entry e) (join '','' (map update_entry (upd_updateData p)))"
    by (intro sublist_join) simp
  moreover obtain rest
    where "updateInfo p = join '','' (map update_entry (upd_updateData p)) @ rest"
    using updateInfo_starts by blast
  ultimately show ?thesis by (simp add: sublist_append)
qed

text \<open>
  C8. When \<open>table\<close> and \<open>where\<close> are given and the joins parse, \<open>updateSQL\<close> returns a
  statement that contains, for every entry of \<open>updateData\<close> whose value is a conditional
  descriptor, the text \<open><column> = CASE WHEN <when> THEN <then> ... ELSE <default> END\<close>,
  the branches in order and separated by a space, each \<open>then\<close> and the \<open>default\<close>
  printed by \<open>JSON.stringify\<close>.
\<close>

theorem updateSQL_case_assignment:
  assumes "truthy (upd_table p)" and "truthy (upd_where p)"
    and "parseJoins (Some (upd_joins p)) = Inr joinStatements"
    and "(column, UCase branches dflt) \<in> set (upd_updateData p)"
  shows "\<exists>query. updateSQL p = Inr query \<and>
     sublist (column @ '' = CASE ''
              @ join '' '' (map (\<lambda>b. ''WHEN '' @ cc_when b @ '' THEN ''
                                     @ JSON_stringify (cc_then b)) branches)
              @ '' ELSE '' @ JSON_stringify dflt @ '' END'') query"
proof -
  have "sublist (update_entry (column, UCase branches dflt)) (updateInfo p)"
    using assms(4) by (rule sublist_updateInfo)
  then have "sublist (update_entry (column, UCase branches dflt))
      ((''UPDATE'' @ joinStatements @ '' '' @ template (upd_table p) @ '' SET '')
        @ updateInfo p
        @ ((if truthy (upd_where p) then '' WHERE '' @ template (upd_where p) else [])
           @ (if truthy_sort (upd_sort p) then parseSort (upd_sort p) else [])
           @ limit_clause (upd_limit p)))"
    by (metis sublist_append)
  with assms(1-3) show ?thesis
    by (simp add: updateSQL_def caseStatement_def)
qed

text \<open>
  The example of the specification: the statement returned for the salary of the
  managers, and the CASE expression it contains.
\<close>

theorem updateSQL_case_example:
  "updateSQL (empty_update\<lparr>upd_table := Some ''employees'',
       upd_updateData := [(''salary'',
          UCase [\<lparr>cc_when = ''position = 'Manager'' @ [CHR 0x27], cc_then = JNum 100000\<rparr>]
            (JNum 50000))],
       upd_where := Some ''id = 1''\<rparr>)
     = Inr ''UPDATE employees SET salary = CASE WHEN position = 'Manager' THEN 100000 ELSE 50000 END WHERE id = 1''
   \<and> sublist ''CASE WHEN position = 'Manager' THEN 100000 ELSE 50000 END''
        ''UPDATE employees SET salary = CASE WHEN position = 'Manager' THEN 100000 ELSE 50000 END WHERE id = 1''"
proof -
  let ?branches = "[\<lparr>cc_when = ''position = 'Manager'' @ [CHR 0x27], cc_then = JNum 100000\<rparr>]"
  let ?p = "empty_update\<lparr>upd_table := Some ''employees'',
       upd_updateData := [(''salary'', UCase ?branches (JNum 50000))],
       upd_where := Some ''id = 1''\<rparr>"
  let ?full = "''UPDATE employees SET salary = CASE WHEN position = 'Manager' THEN 100000 ELSE 50000 END WHERE id = 1''"
  have t: "truthy (upd_table ?p)" and w: "truthy (upd_where ?p)"
    by (simp_all add: truthy_def)
  have j: "parseJoins (Some (upd_joins ?p)) = Inr []"
    by (simp add: empty_update_def parseJoins_def)
  have m: "(''salary'', UCase ?branches (JNum 50000)) \<in> set (upd_updateData ?p)"
    by simp
  have n1: "string_of_number 100000 = ''100000''"
    and n2: "string_of_number 50000 = ''50000''"
    by (simp_all add: string_of_number_def string_of_nat.simps digit_char_def)
  have whole: "updateSQL ?p = Inr ?full"
    by (simp add: updateSQL_def empty_update_def truthy_def template_def parseJoins_def
          updateInfo_def caseStatement_def truthy_sort_def limit_clause_def truthy_limit_def n1 n2)
  have piece: "''salary'' @ '' = CASE ''
              @ join '' '' (map (\<lambda>b. ''WHEN '' @ cc_when b @ '' THEN ''
                                     @ JSON_stringify (cc_then b)) ?branches)
              @ '' ELSE '' @ JSON_stringify (JNum 50000) @ '' END''
            = ''salary = '' @ ''CASE WHEN position = 'Manager' THEN 100000 ELSE 50000 END''"
    by (simp add: n1 n2)
  from updateSQL_case_assignment[OF t w j m] obtain query
    where q: "updateSQL ?p = Inr query"
      and sub: "sublist (''salary'' @ '' = CASE ''
              @ join '' '' (map (\<lambda>b. ''WHEN '' @ cc_when b @ '' THEN ''
                                     @ JSON_stringify (cc_then b)) ?branches)
              @ '' ELSE '' @ JSON_stringify (JNum 50000) @ '' END'') query"
    by blast
  from q whole have "query = ?full" by simp
  with sub have "sublist
      (''salary = '' @ ''CASE WHEN position = 'Manager' THEN 100000 ELSE 50000 END'') ?full"
    by (simp only: piece)
  then have "sublist ''CASE WHEN position = 'Manager' THEN 100000 ELSE 50000 END'' ?full"
    by (meson sublist_append_leftI sublist_order.order_trans)
  with whole show ?thesis by simp
qed

section \<open>The clause order of DELETE\<close>

text \<open>
  C9. When \<open>table\<close> and \<open>where\<close> are non-empty, \<open>deleteSQL\<close> returns
  \<open>DELETE <table> FROM <table>\<close>, then the joins fragment, then \<open>WHERE <where>\<close>, then the
  ORDER BY fragment, then \<open>LIMIT <n>\<close>, in this order.  The LIMIT fragment is the word
  \<open>LIMIT\<close> and the limit as a template literal prints it, and it is there only when a
  limit is given (a limit of 0 or the empty string is dropped as well); the joins and
  the ORDER BY fragments are empty when their option is absent.  (Should a join
  descriptor be malformed, the error of \<open>parseJoins\<close> is thrown instead.)
\<close>

theorem deleteSQL_clause_order:
  assumes "del_table p = Some table" and "table \<noteq> []"
    and "del_where p = Some condition" and "condition \<noteq> []"
  shows "deleteSQL p =
     (case parseJoins (del_joins p) of
        Inl e \<Rightarrow> Inl e
      | Inr joinClauses \<Rightarrow>
          Inr (''DELETE '' @ table @ '' FROM '' @ table @ joinClauses
               @ '' WHERE '' @ condition @ parseSort (del_sort p)
               @ (case del_limit p of
                    None \<Rightarrow> []
                  | Some (LimitNumber n) \<Rightarrow>
                      if n = 0 then [] else '' LIMIT '' @ string_of_number n
                  | Some (LimitString l) \<Rightarrow>
                      if l = [] then [] else '' LIMIT '' @ l)))
   \<and> (del_joins p = None \<longrightarrow> parseJoins (del_joins p) = Inr [])
   \<and> (del_sort p = None \<longrightarrow> parseSort (del_sort p) = [])"
proof -
  have limit: "limit_clause (del_limit p) =
     (case del_limit p of
        None \<Rightarrow> []
      | Some (LimitNumber n) \<Rightarrow> if n = 0 then [] else '' LIMIT '' @ string_of_number n
      | Some (LimitString l) \<Rightarrow> if l = [] then [] else '' LIMIT '' @ l)"
    by (simp add: limit_clause_def truthy_limit_def limit_text_def
        split: option.splits limit_value.splits)
  have "deleteSQL p =
     (case parseJoins (del_joins p) of
        Inl e \<Rightarrow> Inl e
      | Inr joinClauses \<Rightarrow>
          Inr (''DELETE '' @ table @ '' FROM '' @ table @ joinClauses
               @ '' WHERE '' @ condition @ parseSort (del_sort p)
               @ limit_clause (del_limit p)))"
    using assms
    by (simp only: deleteSQL_def joins_if_given_eq parseSort_if_truthy)
       (simp add: truthy_def template_def split: sum.splits)
  moreover have "del_joins p = None \<longrightarrow> parseJoins (del_joins p) = Inr []"
    by (simp add: parseJoins_def)
  moreover have "del_sort p = None \<longrightarrow> parseSort (del_sort p) = []"
    by simp
  ultimately show ?thesis by (simp only: limit)
qed

text \<open>
  The example of the specification, with every option absent, and a call with joins,
  a sort and a limit.
\<close>

theorem deleteSQL_example:
  "deleteSQL \<lparr>del_table = Some ''users'', del_where = Some ''age > 30'', del_joins = None,
      del_limit = None, del_sort = None\<rparr> = Inr ''DELETE users FROM users WHERE age > 30''
   \<and> deleteSQL \<lparr>del_table = Some ''orders'', del_where = Some ''orders.total > 100'',
      del_joins = Some [[(''type'', ''INNER JOIN''), (''table'', ''customers''),
                         (''on'', ''orders.customer_id = customers.id'')]],
      del_limit = Some (LimitNumber 10),
      del_sort = Some (SortRecord [(''order_date'', Direction (- 1))])\<rparr>
     = Inr ''DELETE orders FROM orders INNER JOIN customers ON orders.customer_id = customers.id WHERE orders.total > 100 ORDER BY order_date DESC LIMIT 10''"
proof -
  have ten: "string_of_number 10 = ''10''"
    by (simp add: string_of_number_def string_of_nat.simps digit_char_def)
  have joins: "parseJoins (Some [[(''type'', ''INNER JOIN''), (''table'', ''customers''),
                         (''on'', ''orders.customer_id = customers.id'')]])
     = Inr '' INNER JOIN customers ON orders.customer_id = customers.id''"
    by (simp add: parseJoins_def join_clause_def tableEntries_def table_or_first_def
          truthy_def template_def)
  have first: "deleteSQL \<lparr>del_table = Some ''users'', del_where = Some ''age > 30'',
      del_joins = None, del_limit = None, del_sort = None\<rparr>
     = Inr ''DELETE users FROM users WHERE age > 30''"
    using deleteSQL_clause_order[of "\<lparr>del_table = Some ''users'',
      del_where = Some ''age > 30'', del_joins = None, del_limit = None, del_sort = None\<rparr>"
      "''users''" "''age > 30''"]
    by (simp add: parseJoins_def)
  have second: "deleteSQL \<lparr>del_table = Some ''orders'', del_where = Some ''orders.total > 100'',
      del_joins = Some [[(''type'', ''INNER JOIN''), (''table'', ''customers''),
                         (''on'', ''orders.customer_id = customers.id'')]],
      del_limit = Some (LimitNumber 10),
      del_sort = Some (SortRecord [(''order_date'', Direction (- 1))])\<rparr>
     = Inr ''DELETE orders FROM orders INNER JOIN customers ON orders.customer_id = customers.id WHERE orders.total > 100 ORDER BY order_date DESC LIMIT 10''"
    using deleteSQL_clause_order[of "\<lparr>del_table = Some ''orders'',
      del_where = Some ''orders.total > 100'',
      del_joins = Some [[(''type'', ''INNER JOIN''), (''table'', ''customers''),
                         (''on'', ''orders.customer_id = customers.id'')]],
      del_limit = Some (LimitNumber 10),
      del_sort = Some (SortRecord [(''order_date'', Direction (- 1))])\<rparr>"
      "''orders''" "''orders.total > 100''"]
    by (simp add: joins ten asc_desc_def)
  from first second show ?thesis by (rule conjI)
qed

section \<open>The two builds of the SELECT builder\<close>

text \<open>
  With aggregates given and a non-empty select-list, the minified build, loaded beside
  a module that exports \<open>parsecolumns\<close> as \<open>parseColumns\<close>, returns what the source
  build returns.
\<close>

lemma select_list_min_eq:
  "sel_aggregates config \<noteq> None \<Longrightarrow> select_list config \<noteq> [] \<Longrightarrow>
   select_list_min (Some parsecolumns) config = Inr (select_list config)"
  by (auto simp: select_list_min_def select_list_def select_columns_subqueries_def Let_def
      split: option.splits)

lemma selectQuery_builds_agree:
  "sel_aggregates config \<noteq> None \<Longrightarrow> select_list config \<noteq> [] \<Longrightarrow>
   selectQuery_min (Some parsecolumns) config = selectQuery config"
  by (simp add: selectQuery_min_def selectQuery_def select_list_min_eq)

text \<open>Without columns the minified build never calls the column parser.\<close>

lemma select_list_min_no_columns:
  "sel_columns config = None \<Longrightarrow>
   select_list_min parseColumns config = select_list_min None config"
  by (simp add: select_list_min_def truthy_columns_def)

text \<open>
  C10. The claim fails: for the table \<open>t\<close> and an empty array of aggregates the source
  build selects nothing and the minified build selects the star, whatever \<open>./utils\<close>
  exports as \<open>parseColumns\<close>.  Beside \<open>utils.js\<close> as it is, the minified build moreover
  throws for the column string \<open>a\<close>, where the source build selects the star.
\<close>

theorem selectQuery_builds_differ:
  "selectQuery (empty_select\<lparr>sel_table := Some ''t'', sel_aggregates := Some []\<rparr>)
     = Inr ''SELECT  FROM t''
   \<and> selectQuery_min parseColumns
       (empty_select\<lparr>sel_table := Some ''t'', sel_aggregates := Some []\<rparr>)
     = Inr ''SELECT * FROM t''
   \<and> selectQuery (empty_select\<lparr>sel_table := Some ''t'', sel_columns := Some (ColumnString ''a'')\<rparr>)
     = Inr ''SELECT * FROM t''
   \<and> selectQuery_min None
       (empty_select\<lparr>sel_table := Some ''t'', sel_columns := Some (ColumnString ''a'')\<rparr>)
     = Inl TypeError"
proof -
  let ?c = "empty_select\<lparr>sel_table := Some ''t'', sel_aggregates := Some []\<rparr>"
  have "sel_columns ?c = None"
    by (simp add: empty_select_def)
  then have "select_list_min parseColumns ?c = select_list_min None ?c"
    by (rule select_list_min_no_columns)
  then have "selectQuery_min parseColumns ?c = selectQuery_min None ?c"
    by (simp add: selectQuery_min_def)
  moreover have "selectQuery_min None ?c = Inr ''SELECT * FROM t''"
    by code_simp
  moreover have "selectQuery ?c = Inr ''SELECT  FROM t''"
    by code_simp
  moreover have "selectQuery
      (empty_select\<lparr>sel_table := Some ''t'', sel_columns := Some (ColumnString ''a'')\<rparr>)
      = Inr ''SELECT * FROM t''"
    by code_simp
  moreover have "selectQuery_min None
      (empty_select\<lparr>sel_table := Some ''t'', sel_columns := Some (ColumnString ''a'')\<rparr>)
      = Inl TypeError"
    by code_simp
  ultimately show ?thesis by simp
qed

end
